theory Spec2Isabelle
  imports Main "HOL-Library.Sublist" "HOL-Library.Char_ord" "HOL-Library.List_Lexorder"
begin

section \<open>Values\<close>

text \<open>
  JavaScript values as far as the store looks at them. Numbers are the integers
  (epoch milliseconds, TTLs); floating point values are outside this model.
  An object is its list of own properties.
\<close>

datatype jsval =
    JUndefined
  | JNull
  | JBool bool
  | JNum int
  | JStr string
  | JBuffer "nat list"
  | JArr "jsval list"
  | JObj "(string \<times> jsval) list"

text \<open>JavaScript truthiness, as used by \<^verbatim>\<open>&&\<close>, \<^verbatim>\<open>!\<close> and \<^verbatim>\<open>if\<close>.\<close>

fun truthy :: "jsval \<Rightarrow> bool" where
  "truthy JUndefined = False"
| "truthy JNull = False"
| "truthy (JBool b) = b"
| "truthy (JNum n) = (n \<noteq> 0)"
| "truthy (JStr s) = (s \<noteq> [])"
| "truthy (JBuffer b) = True"
| "truthy (JArr xs) = True"
| "truthy (JObj ps) = True"

text \<open>
  Reading the property \<^verbatim>\<open>v.k\<close> of a truthy value, for the names \<^verbatim>\<open>cookie\<close> and
  \<^verbatim>\<open>maxAge\<close>: an object yields its own property or undefined; booleans, numbers,
  strings, buffers and arrays have no property of either name and yield undefined.
\<close>

fun get_prop :: "jsval \<Rightarrow> string \<Rightarrow> jsval" where
  "get_prop (JObj ps) k = (case map_of ps k of None \<Rightarrow> JUndefined | Some v \<Rightarrow> v)"
| "get_prop v k = JUndefined"

text \<open>
  What SQLite stores in a column and hands back to JavaScript: NULL (null), an
  INTEGER (a number), TEXT (a string) or a BLOB (a Buffer).
\<close>

datatype sqlval =
    SqlNull
  | SqlInteger int
  | SqlText string
  | SqlBlob "nat list"

text \<open>Truthiness of a column value once it is a JavaScript value.\<close>

fun truthy_data :: "sqlval \<Rightarrow> bool" where
  "truthy_data SqlNull = False"
| "truthy_data (SqlInteger n) = (n \<noteq> 0)"
| "truthy_data (SqlText s) = (s \<noteq> [])"
| "truthy_data (SqlBlob b) = True"

datatype error =
    NotOpen
  | EngineError string
  | SerializerError string

text \<open>
  The serializer is an object with the two methods \<^verbatim>\<open>parse\<close> and \<^verbatim>\<open>stringify\<close>.
  Either may throw; \<^verbatim>\<open>stringify\<close> returning a value that the engine cannot bind
  makes the statement throw inside the same \<^verbatim>\<open>try\<close>, so it is an error of
  \<open>stringify\<close> here.
\<close>

record serializer =
  parse :: "sqlval \<Rightarrow> error + jsval"
  stringify :: "jsval \<Rightarrow> error + sqlval"

section \<open>The table and its prepared statements\<close>

text \<open>
  A row of \<^verbatim>\<open>(id PRIMARY KEY, expires_at INTEGER NOT NULL, data BLOB)\<close>. Session
  ids are strings. The table is the list of its rows; the primary key makes the
  ids distinct.
\<close>

record row =
  rid :: string
  expires_at :: int
  data :: sqlval

text \<open>\<^verbatim>\<open>DELETE FROM t WHERE expires_at < ?\<close>\<close>

definition gcStmt :: "int \<Rightarrow> row list \<Rightarrow> row list" where
  "gcStmt now rs = filter (\<lambda>r. \<not> expires_at r < now) rs"

text \<open>\<^verbatim>\<open>SELECT data FROM t WHERE id = ? AND expires_at >= ?\<close>, plucked: the first
  column of the first row, or nothing (undefined).\<close>

definition getStmt :: "string \<Rightarrow> int \<Rightarrow> row list \<Rightarrow> sqlval option" where
  "getStmt i now rs =
     (case filter (\<lambda>r. rid r = i \<and> expires_at r \<ge> now) rs of
        [] \<Rightarrow> None
      | r # _ \<Rightarrow> Some (data r))"

text \<open>\<^verbatim>\<open>INSERT OR REPLACE INTO t (id, expires_at, data) VALUES (@id, @expires_at, @data)\<close>:
  the row in conflict on the primary key is deleted, the new row is inserted.\<close>

definition setStmt :: "string \<Rightarrow> int \<Rightarrow> sqlval \<Rightarrow> row list \<Rightarrow> row list" where
  "setStmt i e d rs =
     filter (\<lambda>r. rid r \<noteq> i) rs @ [\<lparr>rid = i, expires_at = e, data = d\<rparr>]"

text \<open>\<^verbatim>\<open>DELETE FROM t WHERE id = ?\<close>\<close>

definition destroyStmt :: "string \<Rightarrow> row list \<Rightarrow> row list" where
  "destroyStmt i rs = filter (\<lambda>r. rid r \<noteq> i) rs"

text \<open>\<^verbatim>\<open>SELECT COUNT(id) FROM t WHERE expires_at >= ?\<close>\<close>

definition lengthStmt :: "int \<Rightarrow> row list \<Rightarrow> nat" where
  "lengthStmt now rs = length (filter (\<lambda>r. expires_at r \<ge> now) rs)"

text \<open>\<^verbatim>\<open>UPDATE t SET expires_at=? WHERE id=? AND expires_at >= ?\<close>\<close>

definition touchStmt :: "int \<Rightarrow> string \<Rightarrow> int \<Rightarrow> row list \<Rightarrow> row list" where
  "touchStmt e i now rs =
     map (\<lambda>r. if rid r = i \<and> expires_at r \<ge> now then r\<lparr>expires_at := e\<rparr> else r) rs"

text \<open>\<^verbatim>\<open>SELECT data FROM t WHERE expires_at >= ? ORDER BY id\<close>, plucked.\<close>

definition allStmt :: "int \<Rightarrow> row list \<Rightarrow> sqlval list" where
  "allStmt now rs = map data (sort_key rid (filter (\<lambda>r. expires_at r \<ge> now) rs))"

section \<open>The store\<close>

text \<open>
  The fields of a \<^verbatim>\<open>SQLiteStore\<close>. The connection \<^verbatim>\<open>this.db\<close> is whether it is open
  and the rows of its table; \<open>interval\<close> says that the timer started with
  \<^verbatim>\<open>setInterval\<close> is scheduled (it is unreferenced: it does not keep the process alive).
\<close>

record store =
  dir :: string
  filename :: string
  table :: string
  ttl :: int
  serializer :: serializer
  journal_mode :: string
  synchronous :: string
  dbPath :: string
  db_open :: bool
  db_rows :: "row list"
  interval :: bool

text \<open>The constructor's options; a field left out is \<open>None\<close>.\<close>

record options =
  opt_dir :: "string option"
  opt_filename :: "string option"
  opt_table :: "string option"
  opt_ttl :: "int option"
  opt_serializer :: "serializer option"
  opt_journal_mode :: "string option"
  opt_synchronous :: "string option"

text \<open>
  What the constructor takes from the host: the working directory, the global
  \<^verbatim>\<open>JSON\<close> object, \<^verbatim>\<open>path.normalize(path.join(dir, filename))\<close>, and the engine opening
  the database at a path and creating the table of a name if it does not exist, which
  throws or leaves the rows the table holds.
\<close>

record runtime =
  cwd :: string
  JSON :: serializer
  path_join :: "string \<Rightarrow> string \<Rightarrow> string"
  open_db :: "string \<Rightarrow> string \<Rightarrow> error + row list"

definition ONE_DAY :: int where
  "ONE_DAY = 86400000"

text \<open>\<^verbatim>\<open>s.indexOf(t)\<close>: the first index at which \<open>t\<close> occurs in \<open>s\<close>, or -1.\<close>

fun indexOf_from :: "string \<Rightarrow> string \<Rightarrow> int \<Rightarrow> int" where
  "indexOf_from [] t k = (if t = [] then k else - 1)"
| "indexOf_from (c # cs) t k = (if prefix t (c # cs) then k else indexOf_from cs t (k + 1))"

definition indexOf :: "string \<Rightarrow> string \<Rightarrow> int" where
  "indexOf s t = indexOf_from s t 0"

text \<open>\<^verbatim>\<open>a || b\<close> on an optional string and on an optional number: the empty string
  and 0 are falsy.\<close>

definition or_string :: "string option \<Rightarrow> string \<Rightarrow> string" where
  "or_string a b = (case a of None \<Rightarrow> b | Some s \<Rightarrow> if s = [] then b else s)"

definition or_number :: "int option \<Rightarrow> int \<Rightarrow> int" where
  "or_number a b = (case a of None \<Rightarrow> b | Some n \<Rightarrow> if n = 0 then b else n)"

definition or_object :: "'a option \<Rightarrow> 'a \<Rightarrow> 'a" where
  "or_object a b = (case a of None \<Rightarrow> b | Some x \<Rightarrow> x)"

definition SQLiteStore :: "runtime \<Rightarrow> options \<Rightarrow> error + store" where
  "SQLiteStore rt opts =
     (let d = or_string (opt_dir opts) (cwd rt);
          f = or_string (opt_filename opts) ''sessions.sqlite3'';
          t = or_string (opt_table opts) ''sessions'';
          p = (if indexOf f '':memory:'' > - 1 then '':memory:'' else path_join rt d f)
      in case open_db rt p t of
           Inl e \<Rightarrow> Inl e
         | Inr rs \<Rightarrow> Inr \<lparr>dir = d, filename = f, table = t,
             ttl = or_number (opt_ttl opts) ONE_DAY,
             serializer = or_object (opt_serializer opts) (JSON rt),
             journal_mode = or_string (opt_journal_mode opts) ''WAL'',
             synchronous = or_string (opt_synchronous opts) ''NORMAL'',
             dbPath = p, db_open = True, db_rows = rs, interval = True\<rparr>)"

text \<open>
  What a method reports. \<open>CbNone\<close> is \<^verbatim>\<open>cb()\<close>, \<open>CbError e\<close> is \<^verbatim>\<open>cb(e)\<close>,
  \<open>CbResult x\<close> is \<^verbatim>\<open>cb(null, x)\<close>, and \<open>Threw e\<close> is an exception that leaves the
  method with no callback called. \<open>NotModelled\<close> marks a run in which JavaScript adds a
  string, a buffer, an array or an object to the clock reading, which this model does not follow.
\<close>

datatype 'a completion =
    Threw error
  | CbNone
  | CbError error
  | CbResult 'a
  | NotModelled

text \<open>
  Running a prepared statement throws on a closed connection; \<open>flt\<close> is the error the
  engine raises in this call, if it raises one.
\<close>

definition engine_error :: "store \<Rightarrow> error option \<Rightarrow> error option" where
  "engine_error st flt = (if db_open st then flt else Some NotOpen)"

definition getTTL :: "store \<Rightarrow> jsval \<Rightarrow> jsval" where
  "getTTL st sess =
     (if truthy sess \<and> truthy (get_prop sess ''cookie'')
         \<and> truthy (get_prop (get_prop sess ''cookie'') ''maxAge'')
      then get_prop (get_prop sess ''cookie'') ''maxAge''
      else JNum (ttl st))"

text \<open>\<^verbatim>\<open>now + ttl\<close> for a truthy \<open>ttl\<close>: numbers add, \<^verbatim>\<open>true\<close> counts 1; with a string,
  a buffer, an array or an object JavaScript concatenates strings, which is not modelled.\<close>

fun now_plus :: "int \<Rightarrow> jsval \<Rightarrow> int option" where
  "now_plus now (JNum n) = Some (now + n)"
| "now_plus now (JBool b) = Some (now + (if b then 1 else 0))"
| "now_plus now JNull = Some now"
| "now_plus now v = None"

definition length_op :: "store \<Rightarrow> error option \<Rightarrow> int \<Rightarrow> nat completion" where
  "length_op st flt now =
     (case engine_error st flt of
        Some e \<Rightarrow> Threw e
      | None \<Rightarrow> CbResult (lengthStmt now (db_rows st)))"

definition get :: "store \<Rightarrow> error option \<Rightarrow> string \<Rightarrow> int \<Rightarrow> jsval completion" where
  "get st flt i now =
     (case engine_error st flt of
        Some e \<Rightarrow> CbError e
      | None \<Rightarrow>
          (case getStmt i now (db_rows st) of
             None \<Rightarrow> CbNone
           | Some d \<Rightarrow>
               if \<not> truthy_data d then CbNone
               else (case parse (serializer st) d of
                       Inl e \<Rightarrow> CbError e
                     | Inr v \<Rightarrow> CbResult v)))"

definition set_op ::
  "store \<Rightarrow> error option \<Rightarrow> string \<Rightarrow> jsval \<Rightarrow> int \<Rightarrow> unit completion \<times> store" where
  "set_op st flt i sess now =
     (case now_plus now (getTTL st sess) of
        None \<Rightarrow> (NotModelled, st)
      | Some e \<Rightarrow>
          (case stringify (serializer st) sess of
             Inl err \<Rightarrow> (CbError err, st)
           | Inr d \<Rightarrow>
               (case engine_error st flt of
                  Some err \<Rightarrow> (CbError err, st)
                | None \<Rightarrow> (CbResult (), st\<lparr>db_rows := setStmt i e d (db_rows st)\<rparr>))))"

definition destroy :: "store \<Rightarrow> error option \<Rightarrow> string \<Rightarrow> unit completion \<times> store" where
  "destroy st flt i =
     (case engine_error st flt of
        Some err \<Rightarrow> (CbError err, st)
      | None \<Rightarrow> (CbResult (), st\<lparr>db_rows := destroyStmt i (db_rows st)\<rparr>))"

text \<open>\<^verbatim>\<open>BEGIN; DROP TABLE IF EXISTS t; CREATE TABLE IF NOT EXISTS t (...); COMMIT;\<close>\<close>

definition clear :: "store \<Rightarrow> error option \<Rightarrow> unit completion \<times> store" where
  "clear st flt =
     (case engine_error st flt of
        Some err \<Rightarrow> (CbError err, st)
      | None \<Rightarrow> (CbResult (), st\<lparr>db_rows := []\<rparr>))"

definition touch ::
  "store \<Rightarrow> error option \<Rightarrow> string \<Rightarrow> jsval \<Rightarrow> int \<Rightarrow> unit completion \<times> store" where
  "touch st flt i sess now =
     (case now_plus now (getTTL st sess) of
        None \<Rightarrow> (NotModelled, st)
      | Some e \<Rightarrow>
          (case engine_error st flt of
             Some err \<Rightarrow> (CbError err, st)
           | None \<Rightarrow> (CbResult (), st\<lparr>db_rows := touchStmt e i now (db_rows st)\<rparr>)))"

text \<open>\<^verbatim>\<open>.map((s) => JSON.parse(s))\<close>: the first element that does not parse throws.\<close>

fun parse_each :: "serializer \<Rightarrow> sqlval list \<Rightarrow> error + jsval list" where
  "parse_each J [] = Inr []"
| "parse_each J (d # ds) =
     (case parse J d of
        Inl e \<Rightarrow> Inl e
      | Inr v \<Rightarrow> (case parse_each J ds of Inl e \<Rightarrow> Inl e | Inr vs \<Rightarrow> Inr (v # vs)))"

text \<open>\<open>all_op\<close> is the method \<^verbatim>\<open>all\<close>; \<open>J\<close> is the global \<^verbatim>\<open>JSON\<close> its body names.\<close>

definition all_op :: "serializer \<Rightarrow> store \<Rightarrow> error option \<Rightarrow> int \<Rightarrow> jsval list completion" where
  "all_op J st flt now =
     (case engine_error st flt of
        Some e \<Rightarrow> CbError e
      | None \<Rightarrow>
          (case parse_each J (allStmt now (db_rows st)) of
             Inl e \<Rightarrow> CbError e
           | Inr vs \<Rightarrow> CbResult vs))"

text \<open>\<open>gc\<close> has no callback and no \<^verbatim>\<open>try\<close>: it returns, or the statement's exception
  leaves it (\<open>Inl\<close>).\<close>

definition gc :: "store \<Rightarrow> error option \<Rightarrow> int \<Rightarrow> error + store" where
  "gc st flt now =
     (case engine_error st flt of
        Some e \<Rightarrow> Inl e
      | None \<Rightarrow> Inr (st\<lparr>db_rows := gcStmt now (db_rows st)\<rparr>))"

text \<open>\<^verbatim>\<open>this.db.close()\<close>: the connection is closed, and the rows of an in-memory
  database are gone with it.\<close>

definition close :: "store \<Rightarrow> store" where
  "close st =
     st\<lparr>db_open := False,
        db_rows := (if dbPath st = '':memory:'' then [] else db_rows st)\<rparr>"

text \<open>The timer set by the constructor fires: a scheduled interval calls
  \<^verbatim>\<open>this.gc.bind(this)\<close>, and nothing stands between \<open>gc\<close> and the timer.\<close>

definition timer_tick :: "store \<Rightarrow> error option \<Rightarrow> int \<Rightarrow> error + store" where
  "timer_tick st flt now = (if interval st then gc st flt now else Inr st)"

section \<open>Example values\<close>

text \<open>
  A serializer given by a finite table of values and their encodings: \<open>stringify\<close>
  looks a value up and throws for any other, \<open>parse\<close> looks a text up and throws for
  any other payload.
\<close>

definition codebook_serializer :: "(jsval \<times> string) list \<Rightarrow> serializer" where
  "codebook_serializer book =
     \<lparr>parse = (\<lambda>d. case d of
          SqlText s \<Rightarrow>
            (case map_of (map (\<lambda>(v, s). (s, v)) book) s of
               Some v \<Rightarrow> Inr v
             | None \<Rightarrow> Inl (SerializerError ''parse''))
        | _ \<Rightarrow> Inl (SerializerError ''parse'')),
      stringify = (\<lambda>v. case map_of book v of
          Some s \<Rightarrow> Inr (SqlText s)
        | None \<Rightarrow> Inl (SerializerError ''stringify''))\<rparr>"

text \<open>\<^verbatim>\<open>JSON\<close> on the values the examples use; on these it agrees with
  \<^verbatim>\<open>JSON.stringify\<close> and \<^verbatim>\<open>JSON.parse\<close>, which also throws on the empty text.\<close>

definition example_JSON :: serializer where
  \<open>example_JSON =
     codebook_serializer
       [(JNum 42, ''42''),
        (JNum 7, ''7''),
        (JObj [(''data'', JStr ''bar'')], ''{"data":"bar"}''),
        (JObj [(''cookie'', JObj [(''maxAge'', JNum (- 1))])], ''{"cookie":{"maxAge":-1}}''),
        (JObj [(''cookie'', JObj [(''maxAge'', JNum 0)])], ''{"cookie":{"maxAge":0}}''),
        (JObj [(''cookie'', JObj [(''maxAge'', JNum 10)])], ''{"cookie":{"maxAge":10}}'')]\<close>

text \<open>The serializer \<^verbatim>\<open>{parse: (x) => x, stringify: (x) => x}\<close>: a string, a number,
  null and a buffer are bound as they are, any other value makes the statement throw.\<close>

definition raw_serializer :: serializer where
  "raw_serializer =
     \<lparr>parse = (\<lambda>d. case d of
          SqlNull \<Rightarrow> Inr JNull
        | SqlInteger n \<Rightarrow> Inr (JNum n)
        | SqlText s \<Rightarrow> Inr (JStr s)
        | SqlBlob b \<Rightarrow> Inr (JBuffer b)),
      stringify = (\<lambda>v. case v of
          JNull \<Rightarrow> Inr SqlNull
        | JNum n \<Rightarrow> Inr (SqlInteger n)
        | JStr s \<Rightarrow> Inr (SqlText s)
        | JBuffer b \<Rightarrow> Inr (SqlBlob b)
        | _ \<Rightarrow> Inl (EngineError ''bind''))\<rparr>"

text \<open>A host. Its \<^verbatim>\<open>path.normalize(path.join(d, f))\<close> is POSIX joining on the names the
  examples use: a plain name follows the directory after a separator, and the name
  \<^verbatim>\<open>.\<close> leaves the directory as it is. Its engine opens every path on an empty table.\<close>

definition example_runtime :: runtime where
  "example_runtime =
     \<lparr>cwd = ''/srv'', JSON = example_JSON,
      path_join = (\<lambda>d f. if f = ''.'' then d else d @ ''/'' @ f),
      open_db = (\<lambda>p t. Inr [])\<rparr>"

definition no_options :: options where
  "no_options =
     \<lparr>opt_dir = None, opt_filename = None, opt_table = None, opt_ttl = None,
      opt_serializer = None, opt_journal_mode = None, opt_synchronous = None\<rparr>"

text \<open>The store that \<^verbatim>\<open>new SQLiteStore({filename: ':memory:', serializer})\<close> makes on
  this host for the serializer above.\<close>

definition raw_store :: store where
  "raw_store =
     \<lparr>dir = ''/srv'', filename = '':memory:'', table = ''sessions'',
      ttl = ONE_DAY, serializer = raw_serializer, journal_mode = ''WAL'',
      synchronous = ''NORMAL'', dbPath = '':memory:'', db_open = True,
      db_rows = [], interval = True\<rparr>"

text \<open>A store of the default options over a table of two rows.\<close>

definition example_store :: store where
  "example_store =
     \<lparr>dir = ''/srv'', filename = ''sessions.sqlite3'', table = ''sessions'',
      ttl = ONE_DAY, serializer = example_JSON, journal_mode = ''WAL'',
      synchronous = ''NORMAL'', dbPath = ''/srv/sessions.sqlite3'', db_open = True,
      db_rows = [\<lparr>rid = ''a'', expires_at = 100, data = SqlText ''42''\<rparr>,
                 \<lparr>rid = ''b'', expires_at = 300, data = SqlText ''7''\<rparr>],
      interval = True\<rparr>"

text \<open>The same store over a table of two active rows, the second with the empty text
  as its payload, which \<^verbatim>\<open>JSON.parse\<close> rejects.\<close>

definition blank_payload_store :: store where
  "blank_payload_store =
     example_store\<lparr>db_rows :=
       [\<lparr>rid = ''a'', expires_at = 300, data = SqlText ''42''\<rparr>,
        \<lparr>rid = ''b'', expires_at = 300, data = SqlText ''''\<rparr>]\<rparr>"


section \<open>The expiry hint as the specification words it\<close>

text \<open>
  The specification's ``numeric max age found at a conventional nested field'': the
  number at \<^verbatim>\<open>value.cookie.maxAge\<close>, if \<open>value\<close> is an object whose \<^verbatim>\<open>cookie\<close> is an
  object whose \<^verbatim>\<open>maxAge\<close> is a number. This follows the specification, not the code;
  the code is \<open>getTTL\<close>.
\<close>

definition maxAge_hint :: "jsval \<Rightarrow> int option" where
  "maxAge_hint v =
     (case v of
        JObj ps \<Rightarrow>
          (case map_of ps ''cookie'' of
             Some (JObj cs) \<Rightarrow>
               (case map_of cs ''maxAge'' of Some (JNum n) \<Rightarrow> Some n | _ \<Rightarrow> None)
           | _ \<Rightarrow> None)
      | _ \<Rightarrow> None)"

section \<open>Garbage collection\<close>

lemma filter_active_gcStmt:
  "now \<le> now' \<Longrightarrow>
   filter (\<lambda>r. P r \<and> now' \<le> expires_at r) (gcStmt now rs) =
   filter (\<lambda>r. P r \<and> now' \<le> expires_at r) rs"
  unfolding gcStmt_def filter_filter by (rule filter_cong) auto

lemma getStmt_gcStmt: "now \<le> now' \<Longrightarrow> getStmt i now' (gcStmt now rs) = getStmt i now' rs"
  unfolding getStmt_def by (simp add: filter_active_gcStmt)

lemma lengthStmt_gcStmt: "now \<le> now' \<Longrightarrow> lengthStmt now' (gcStmt now rs) = lengthStmt now' rs"
  unfolding lengthStmt_def using filter_active_gcStmt [of now now' "\<lambda>_. True" rs] by simp

lemma allStmt_gcStmt: "now \<le> now' \<Longrightarrow> allStmt now' (gcStmt now rs) = allStmt now' rs"
  unfolding allStmt_def using filter_active_gcStmt [of now now' "\<lambda>_. True" rs] by simp

text \<open>
  C3. On an open connection whose engine raises nothing, a sweep at \<open>now\<close> returns and
  deletes exactly the rows with \<open>expires_at < now\<close>. At every later clock reading
  \<open>now'\<close> the methods \<open>length\<close>, \<open>get\<close> (for every id) and \<open>all\<close> report on the
  swept table what they report on the table before the sweep, so no row that is
  active is lost.
\<close>

theorem gc_sweep_keeps_active:
  assumes "db_open st" and "now \<le> now'"
  shows "case gc st None now of
           Inl e \<Rightarrow> False
         | Inr st' \<Rightarrow>
             set (db_rows st') = set (db_rows st) - {r. expires_at r < now}
           \<and> length_op st' flt now' = length_op st flt now'
           \<and> get st' flt i now' = get st flt i now'
           \<and> all_op J st' flt now' = all_op J st flt now'"
proof -
  let ?st' = "st\<lparr>db_rows := gcStmt now (db_rows st)\<rparr>"
  have g: "gc st None now = Inr ?st'"
    using assms(1) by (simp add: gc_def engine_error_def)
  have rows: "set (db_rows ?st') = set (db_rows st) - {r. expires_at r < now}"
    by (auto simp: gcStmt_def)
  have len: "length_op ?st' flt now' = length_op st flt now'"
    by (simp add: length_op_def engine_error_def lengthStmt_gcStmt [OF assms(2)]
          split: option.splits)
  have gt: "get ?st' flt i now' = get st flt i now'"
    by (simp add: get_def engine_error_def getStmt_gcStmt [OF assms(2)]
          split: option.splits)
  have al: "all_op J ?st' flt now' = all_op J st flt now'"
    by (simp add: all_op_def engine_error_def allStmt_gcStmt [OF assms(2)]
          split: option.splits)
  show ?thesis
    unfolding g using rows len gt al by simp
qed

theorem gc_sweep_keeps_active_witness:
  "db_open example_store \<and> (200::int) \<le> 250
   \<and> gc example_store None 200 =
       Inr (example_store\<lparr>db_rows := [\<lparr>rid = ''b'', expires_at = 300, data = SqlText ''7''\<rparr>]\<rparr>)
   \<and> length_op example_store None 250 = CbResult 1
   \<and> length_op (example_store\<lparr>db_rows := [\<lparr>rid = ''b'', expires_at = 300, data = SqlText ''7''\<rparr>]\<rparr>)
         None 250 = CbResult 1
   \<and> get (example_store\<lparr>db_rows := [\<lparr>rid = ''b'', expires_at = 300, data = SqlText ''7''\<rparr>]\<rparr>)
         None ''b'' 250 = CbResult (JNum 7)"
proof -
  have o: "db_open example_store" by (simp add: example_store_def)
  have t: "(200::int) \<le> 250" by simp
  have g: "gc example_store None 200 =
       Inr (example_store\<lparr>db_rows := [\<lparr>rid = ''b'', expires_at = 300, data = SqlText ''7''\<rparr>]\<rparr>)"
    by (simp add: gc_def engine_error_def gcStmt_def example_store_def)
  have l: "length_op example_store None 250 = CbResult 1"
    by (simp add: length_op_def engine_error_def lengthStmt_def example_store_def)
  have gg: "get example_store None ''b'' 250 = CbResult (JNum 7)"
    by (simp add: get_def engine_error_def getStmt_def example_store_def example_JSON_def
          codebook_serializer_def)
  from gc_sweep_keeps_active [OF o t, of None "''b''" example_JSON]
  show ?thesis unfolding g using o l gg by simp
qed

section \<open>The database path\<close>






section \<open>Decoding\<close>

text \<open>
  C1. The claim is that every read path decodes with the configured serializer. The
  method \<open>all\<close> decodes with the global \<^verbatim>\<open>JSON\<close> instead: in a store made with the
  serializer \<^verbatim>\<open>{parse: (x) => x, stringify: (x) => x}\<close>, after \<^verbatim>\<open>set('a', '42')\<close> the
  method \<open>get\<close> reports the string \<^verbatim>\<open>'42'\<close> and \<open>all\<close> reports the number 42.
\<close>

theorem all_decodes_with_JSON:
  "SQLiteStore example_runtime
     (no_options\<lparr>opt_filename := Some '':memory:'', opt_serializer := Some raw_serializer\<rparr>) =
     Inr raw_store
   \<and> set_op raw_store None ''a'' (JStr ''42'') 1000 =
       (CbResult (), raw_store\<lparr>db_rows := [\<lparr>rid = ''a'', expires_at = 86401000, data = SqlText ''42''\<rparr>]\<rparr>)
   \<and> get (raw_store\<lparr>db_rows := [\<lparr>rid = ''a'', expires_at = 86401000, data = SqlText ''42''\<rparr>]\<rparr>)
        None ''a'' 1000 = CbResult (JStr ''42'')
   \<and> all_op (JSON example_runtime)
        (raw_store\<lparr>db_rows := [\<lparr>rid = ''a'', expires_at = 86401000, data = SqlText ''42''\<rparr>]\<rparr>)
        None 1000 = CbResult [JNum 42]"
proof -
  have i: "indexOf '':memory:'' '':memory:'' = 0"
    by (simp add: indexOf_def)
  have c: "SQLiteStore example_runtime
     (no_options\<lparr>opt_filename := Some '':memory:'', opt_serializer := Some raw_serializer\<rparr>) =
     Inr raw_store"
    by (simp add: SQLiteStore_def Let_def i example_runtime_def no_options_def raw_store_def
          or_string_def or_number_def or_object_def)
  have s: "set_op raw_store None ''a'' (JStr ''42'') 1000 =
       (CbResult (), raw_store\<lparr>db_rows := [\<lparr>rid = ''a'', expires_at = 86401000, data = SqlText ''42''\<rparr>]\<rparr>)"
    by (simp add: set_op_def getTTL_def engine_error_def setStmt_def raw_store_def
          raw_serializer_def ONE_DAY_def)
  have g: "get (raw_store\<lparr>db_rows := [\<lparr>rid = ''a'', expires_at = 86401000, data = SqlText ''42''\<rparr>]\<rparr>)
        None ''a'' 1000 = CbResult (JStr ''42'')"
    by (simp add: get_def engine_error_def getStmt_def raw_store_def raw_serializer_def)
  have a: "all_op (JSON example_runtime)
        (raw_store\<lparr>db_rows := [\<lparr>rid = ''a'', expires_at = 86401000, data = SqlText ''42''\<rparr>]\<rparr>)
        None 1000 = CbResult [JNum 42]"
    by (simp add: all_op_def engine_error_def allStmt_def raw_store_def example_runtime_def
          example_JSON_def codebook_serializer_def)
  show ?thesis using c s g a by simp
qed

lemma filter_rid_distinct:
  "distinct (map rid rs) \<Longrightarrow> r \<in> set rs \<Longrightarrow> filter (\<lambda>x. rid x = rid r) rs = [r]"
proof (induction rs)
  case Nil
  then show ?case by simp
next
  case (Cons x xs)
  show ?case
  proof (cases "x = r")
    case True
    with Cons.prems have "rid r \<notin> rid ` set xs" by simp
    then have "filter (\<lambda>y. rid y = rid r) xs = []"
      unfolding filter_empty_conv by (metis imageI)
    with True show ?thesis by simp
  next
    case False
    with Cons.prems have "r \<in> set xs" and "rid x \<noteq> rid r" by auto
    with Cons show ?thesis by simp
  qed
qed

text \<open>
  C8. The claim is that an active row whose payload cannot be decoded makes \<open>get\<close>
  report an error, never absent. \<open>get\<close> tests the payload for truthiness before it
  decodes: row \<open>b\<close> is active at 200 and its payload, the empty text, cannot be decoded
  (\<^verbatim>\<open>JSON.parse('')\<close> throws), yet \<open>get\<close> reports absent, while \<open>all\<close> reports the
  decoding error for the same table and \<open>length\<close> counts the row.
\<close>

theorem get_reports_blank_payload_absent:
  "getStmt ''b'' 200 (db_rows blank_payload_store) = Some (SqlText '''')
   \<and> parse (serializer blank_payload_store) (SqlText '''') = Inl (SerializerError ''parse'')
   \<and> get blank_payload_store None ''b'' 200 = CbNone
   \<and> all_op (JSON example_runtime) blank_payload_store None 200 =
       CbError (SerializerError ''parse'')
   \<and> length_op blank_payload_store None 200 = CbResult 2"
proof -
  have o: "db_open blank_payload_store"
    by (simp add: blank_payload_store_def example_store_def)
  have rows: "db_rows blank_payload_store =
       [\<lparr>rid = ''a'', expires_at = 300, data = SqlText ''42''\<rparr>,
        \<lparr>rid = ''b'', expires_at = 300, data = SqlText ''''\<rparr>]"
    by (simp add: blank_payload_store_def example_store_def)
  have g: "getStmt ''b'' 200 (db_rows blank_payload_store) = Some (SqlText '''')"
    by (simp add: rows getStmt_def)
  have p: "parse (serializer blank_payload_store) (SqlText '''') = Inl (SerializerError ''parse'')"
    by (simp add: blank_payload_store_def example_store_def example_JSON_def
          codebook_serializer_def)
  have b: "get blank_payload_store None ''b'' 200 = CbNone"
    by (simp add: get_def engine_error_def o g)
  have j1: "parse (JSON example_runtime) (SqlText ''42'') = Inr (JNum 42)"
    by (simp add: example_runtime_def example_JSON_def codebook_serializer_def)
  have j2: "parse (JSON example_runtime) (SqlText '''') = Inl (SerializerError ''parse'')"
    by (simp add: example_runtime_def example_JSON_def codebook_serializer_def)
  have a: "all_op (JSON example_runtime) blank_payload_store None 200 =
       CbError (SerializerError ''parse'')"
    by (simp add: all_op_def engine_error_def o rows allStmt_def j1 j2)
  have l: "length_op blank_payload_store None 200 = CbResult 2"
    by (simp add: length_op_def engine_error_def o rows lengthStmt_def)
  show ?thesis using g p b a l by simp
qed

section \<open>The timer\<close>

text \<open>
  C4. The claim is that an engine error in a periodic sweep is contained. \<open>gc\<close> has no
  \<^verbatim>\<open>try\<close>, and the timer calls it directly: when the engine raises in the sweep's
  statement, or the connection has been closed, the exception leaves \<open>gc\<close> into the timer
  callback, uncaught.
\<close>

theorem gc_error_leaves_timer_callback:
  "timer_tick example_store (Some (EngineError ''SQLITE_BUSY'')) 200 = Inl (EngineError ''SQLITE_BUSY'')
   \<and> timer_tick (close example_store) None 200 = Inl NotOpen"
  by (simp add: timer_tick_def gc_def engine_error_def close_def example_store_def)

text \<open>
  C7 as stated fails: after \<open>close\<close> the timer of the store is still scheduled, and a
  tick still calls \<open>gc\<close>.
\<close>

theorem close_stops_timer_counterexample:
  "interval (close example_store)
   \<and> timer_tick (close example_store) None 200 = gc (close example_store) None 200"
  by (simp add: timer_tick_def close_def example_store_def)

text \<open>
  C7, as amended. The constructor leaves the timer scheduled and the connection open.
  \<open>close\<close> closes the connection and does not stop the timer: on every store it leaves
  the timer as it was, so after \<open>close\<close> the timer of a constructed store is still
  scheduled.
\<close>

theorem timer_started_and_left_by_close:
  assumes "SQLiteStore rt opts = Inr st"
  shows "interval st \<and> db_open st
       \<and> interval (close st) \<and> \<not> db_open (close st)
       \<and> interval (close s) = interval s"
  using assms
  by (auto simp: SQLiteStore_def Let_def close_def split: sum.splits)

theorem timer_started_and_left_by_close_witness:
  "SQLiteStore example_runtime no_options = Inr (example_store\<lparr>db_rows := []\<rparr>)
   \<and> interval (example_store\<lparr>db_rows := []\<rparr>)
   \<and> interval (close (example_store\<lparr>db_rows := []\<rparr>))
   \<and> \<not> db_open (close (example_store\<lparr>db_rows := []\<rparr>))"
proof -
  have i: "indexOf ''sessions.sqlite3'' '':memory:'' = - 1"
    by (simp add: indexOf_def)
  have c: "SQLiteStore example_runtime no_options = Inr (example_store\<lparr>db_rows := []\<rparr>)"
    by (simp add: SQLiteStore_def Let_def i example_runtime_def no_options_def example_store_def
          or_string_def or_number_def or_object_def)
  from timer_started_and_left_by_close [OF c]
  show ?thesis using c by simp
qed

section \<open>The primary key\<close>

lemma distinct_ids_setStmt: "distinct (map rid rs) \<Longrightarrow> distinct (map rid (setStmt i e d rs))"
  by (auto simp: setStmt_def distinct_map_filter)

lemma rid_touchStmt: "map rid (touchStmt e i now rs) = map rid rs"
  unfolding touchStmt_def by (induction rs) auto

lemma distinct_ids_kept:
  assumes "distinct (map rid rs)"
  shows "distinct (map rid (touchStmt e i now rs))"
    and "distinct (map rid (destroyStmt i rs))"
    and "distinct (map rid (gcStmt now rs))"
  using assms by (simp_all add: rid_touchStmt destroyStmt_def gcStmt_def distinct_map_filter)

section \<open>Writing and reading back\<close>


lemma filter_rid_setStmt:
  "filter (\<lambda>r. rid r = i) (setStmt i e d rs) = [\<lparr>rid = i, expires_at = e, data = d\<rparr>]"
  by (simp add: setStmt_def)




section \<open>The TTL rule\<close>

lemma getTTL_hint: "maxAge_hint v = Some n \<Longrightarrow> getTTL st v = (if n = 0 then JNum (ttl st) else JNum n)"
  by (auto simp: maxAge_hint_def getTTL_def split: jsval.splits option.splits)

lemma touchStmt_member:
  "r \<in> set rs \<Longrightarrow> rid r = i \<Longrightarrow> now \<le> expires_at r \<Longrightarrow>
   r\<lparr>expires_at := e\<rparr> \<in> set (touchStmt e i now rs)"
  by (force simp: touchStmt_def)

text \<open>
  C6, as amended. The TTL is the number at \<^verbatim>\<open>v.cookie.maxAge\<close> when that number is not
  0, and the store's default TTL when it is 0. In general the TTL is the value at
  \<^verbatim>\<open>v.cookie.maxAge\<close> whenever that value is truthy, and the default TTL whenever it is
  not (or \<open>v\<close> or \<^verbatim>\<open>v.cookie\<close> is not). For a TTL that is the number \<open>t\<close>, \<open>set\<close> leaves
  exactly one row of the id, with \<open>expires_at = now + t\<close>, and \<open>touch\<close> turns an active
  row of the id into the same row with \<open>expires_at = now + t\<close>.
\<close>

theorem ttl_rule:
  "(maxAge_hint v = Some n \<and> n \<noteq> 0 \<longrightarrow> getTTL st v = JNum n)
   \<and> (maxAge_hint v = Some 0 \<longrightarrow> getTTL st v = JNum (ttl st))
   \<and> (truthy (get_prop (get_prop v ''cookie'') ''maxAge'') \<longrightarrow>
        getTTL st v = get_prop (get_prop v ''cookie'') ''maxAge'')
   \<and> (\<not> truthy (get_prop (get_prop v ''cookie'') ''maxAge'') \<longrightarrow>
        getTTL st v = JNum (ttl st))
   \<and> (getTTL st v = JNum t \<and> db_open st \<and> stringify (serializer st) v = Inr d \<longrightarrow>
        filter (\<lambda>r. rid r = i) (db_rows (snd (set_op st None i v now))) =
          [\<lparr>rid = i, expires_at = now + t, data = d\<rparr>])
   \<and> (getTTL st v = JNum t \<and> db_open st \<and> r \<in> set (db_rows st) \<and> rid r = i
        \<and> now \<le> expires_at r \<longrightarrow>
        r\<lparr>expires_at := now + t\<rparr> \<in> set (db_rows (snd (touch st None i v now))))"
proof -
  have a: "maxAge_hint v = Some n \<and> n \<noteq> 0 \<longrightarrow> getTTL st v = JNum n"
    by (simp add: getTTL_hint)
  have b: "maxAge_hint v = Some 0 \<longrightarrow> getTTL st v = JNum (ttl st)"
    by (simp add: getTTL_hint)
  have c: "truthy (get_prop (get_prop v ''cookie'') ''maxAge'') \<longrightarrow>
        getTTL st v = get_prop (get_prop v ''cookie'') ''maxAge''"
    by (cases v; cases "get_prop v ''cookie''") (auto simp: getTTL_def)
  have d: "\<not> truthy (get_prop (get_prop v ''cookie'') ''maxAge'') \<longrightarrow>
        getTTL st v = JNum (ttl st)"
    by (simp add: getTTL_def)
  have e: "getTTL st v = JNum t \<and> db_open st \<and> stringify (serializer st) v = Inr d \<longrightarrow>
        filter (\<lambda>r. rid r = i) (db_rows (snd (set_op st None i v now))) =
          [\<lparr>rid = i, expires_at = now + t, data = d\<rparr>]"
    by (simp add: set_op_def engine_error_def filter_rid_setStmt)
  have f: "getTTL st v = JNum t \<and> db_open st \<and> r \<in> set (db_rows st) \<and> rid r = i
        \<and> now \<le> expires_at r \<longrightarrow>
        r\<lparr>expires_at := now + t\<rparr> \<in> set (db_rows (snd (touch st None i v now)))"
    by (simp add: touch_def engine_error_def touchStmt_member)
  show ?thesis using a b c d e f by blast
qed

theorem ttl_rule_witness:
  \<open>maxAge_hint (JObj [(''cookie'', JObj [(''maxAge'', JNum 10)])]) = Some 10
   \<and> getTTL example_store (JObj [(''cookie'', JObj [(''maxAge'', JNum 10)])]) = JNum 10
   \<and> db_open example_store
   \<and> stringify (serializer example_store) (JObj [(''cookie'', JObj [(''maxAge'', JNum 10)])]) =
       Inr (SqlText ''{"cookie":{"maxAge":10}}'')
   \<and> filter (\<lambda>r. rid r = ''s'')
        (db_rows (snd (set_op example_store None ''s''
                         (JObj [(''cookie'', JObj [(''maxAge'', JNum 10)])]) 1000))) =
       [\<lparr>rid = ''s'', expires_at = 1010, data = SqlText ''{"cookie":{"maxAge":10}}''\<rparr>]
   \<and> \<lparr>rid = ''b'', expires_at = 260, data = SqlText ''7''\<rparr>
       \<in> set (db_rows (snd (touch example_store None ''b''
                         (JObj [(''cookie'', JObj [(''maxAge'', JNum 10)])]) 250)))
   \<and> maxAge_hint (JObj [(''cookie'', JObj [(''maxAge'', JNum 0)])]) = Some 0
   \<and> getTTL example_store (JObj [(''cookie'', JObj [(''maxAge'', JNum 0)])]) = JNum 86400000
   \<and> \<not> truthy (get_prop (get_prop (JNum 42) ''cookie'') ''maxAge'')
   \<and> getTTL example_store (JNum 42) = JNum 86400000\<close>
proof -
  let ?v = "JObj [(''cookie'', JObj [(''maxAge'', JNum 10)])]"
  let ?z = "JObj [(''cookie'', JObj [(''maxAge'', JNum 0)])]"
  let ?b = "\<lparr>rid = ''b'', expires_at = 300, data = SqlText ''7''\<rparr>"
  have h: "maxAge_hint ?v = Some 10"
    by (simp add: maxAge_hint_def)
  have hz: "maxAge_hint ?z = Some 0"
    by (simp add: maxAge_hint_def)
  have o: "db_open example_store"
    by (simp add: example_store_def)
  have tl: "ttl example_store = 86400000"
    by (simp add: example_store_def ONE_DAY_def)
  have s: \<open>stringify (serializer example_store) ?v = Inr (SqlText ''{"cookie":{"maxAge":10}}'')\<close>
    by (simp add: example_store_def example_JSON_def codebook_serializer_def)
  have m: "?b \<in> set (db_rows example_store)"
    by (simp add: example_store_def)
  have n: "\<not> truthy (get_prop (get_prop (JNum 42) ''cookie'') ''maxAge'')"
    by simp
  note r1 = ttl_rule [of ?v 10 example_store 10 \<open>SqlText ''{"cookie":{"maxAge":10}}''\<close> "''s''" 1000
      ?b]
  note r2 = ttl_rule [of ?v 10 example_store 10 \<open>SqlText ''{"cookie":{"maxAge":10}}''\<close> "''b''" 250
      ?b]
  note r3 = ttl_rule [of ?z 0 example_store]
  note r4 = ttl_rule [of "JNum 42" 0 example_store]
  have g: "getTTL example_store ?v = JNum 10"
    using r1 h by simp
  have e1: \<open>filter (\<lambda>r. rid r = ''s'') (db_rows (snd (set_op example_store None ''s'' ?v 1000))) =
       [\<lparr>rid = ''s'', expires_at = 1010, data = SqlText ''{"cookie":{"maxAge":10}}''\<rparr>]\<close>
    using r1 g o s by simp
  have e2: "\<lparr>rid = ''b'', expires_at = 260, data = SqlText ''7''\<rparr>
       \<in> set (db_rows (snd (touch example_store None ''b'' ?v 250)))"
    using r2 g o m by simp
  have gz: "getTTL example_store ?z = JNum 86400000"
    using r3 hz tl by simp
  have gn: "getTTL example_store (JNum 42) = JNum 86400000"
    using r4 n tl by simp
  show ?thesis using h g o s e1 e2 hz gz n gn by simp
qed

text \<open>
  C6 as stated fails for \<^verbatim>\<open>{cookie: {maxAge: 0}}\<close>: the value carries the numeric
  max age 0, but the TTL is the default 86400000 and \<open>set\<close> at 1000 stores
  \<open>expires_at = 86401000\<close>.
\<close>

theorem ttl_rule_counterexample:
  \<open>maxAge_hint (JObj [(''cookie'', JObj [(''maxAge'', JNum 0)])]) = Some 0
   \<and> ttl example_store = 86400000
   \<and> getTTL example_store (JObj [(''cookie'', JObj [(''maxAge'', JNum 0)])]) = JNum 86400000
   \<and> filter (\<lambda>r. rid r = ''s'')
        (db_rows (snd (set_op example_store None ''s''
                         (JObj [(''cookie'', JObj [(''maxAge'', JNum 0)])]) 1000))) =
       [\<lparr>rid = ''s'', expires_at = 86401000, data = SqlText ''{"cookie":{"maxAge":0}}''\<rparr>]\<close>
  by (simp add: maxAge_hint_def set_op_def getTTL_def engine_error_def setStmt_def
        example_store_def example_JSON_def codebook_serializer_def ONE_DAY_def)

section \<open>Touch\<close>

lemma touchStmt_no_active:
  "\<forall>r\<in>set rs. \<not> (rid r = i \<and> now \<le> expires_at r) \<Longrightarrow> touchStmt e i now rs = rs"
  unfolding touchStmt_def by (induction rs) auto

lemma filter_rid_touchStmt:
  "filter (\<lambda>x. rid x = i) (touchStmt e i now rs) =
   map (\<lambda>r. if now \<le> expires_at r then r\<lparr>expires_at := e\<rparr> else r) (filter (\<lambda>x. rid x = i) rs)"
  unfolding touchStmt_def by (induction rs) auto

text \<open>
  C2, as amended. On an open connection whose engine raises nothing, over a table of
  distinct ids, let the TTL of \<open>v\<close> be the number \<open>t\<close>. Then \<open>touch\<close> reports no error;
  if no active row has the id (there is no row of it, or only an expired one), the
  store is unchanged; and if the row \<open>r\<close> of the id is active, the only row of the id
  afterwards is \<open>r\<close> with \<open>expires_at = now + t\<close>, which is greater than before exactly
  when \<open>now + t\<close> exceeds the old value.
\<close>

theorem touch_sets_expiry:
  assumes "db_open st" and "getTTL st v = JNum t" and "distinct (map rid (db_rows st))"
  shows "fst (touch st None i v now) = CbResult ()
       \<and> ((\<forall>r\<in>set (db_rows st). \<not> (rid r = i \<and> now \<le> expires_at r)) \<longrightarrow>
            snd (touch st None i v now) = st)
       \<and> (\<forall>r\<in>set (db_rows st). rid r = i \<and> now \<le> expires_at r \<longrightarrow>
            filter (\<lambda>x. rid x = i) (db_rows (snd (touch st None i v now))) =
              [r\<lparr>expires_at := now + t\<rparr>])"
proof -
  have t: "touch st None i v now =
      (CbResult (), st\<lparr>db_rows := touchStmt (now + t) i now (db_rows st)\<rparr>)"
    using assms(1,2) by (simp add: touch_def engine_error_def)
  have a: "snd (touch st None i v now) = st"
    if "\<forall>r\<in>set (db_rows st). \<not> (rid r = i \<and> now \<le> expires_at r)"
    using that by (simp add: t touchStmt_no_active)
  have b: "filter (\<lambda>x. rid x = i) (db_rows (snd (touch st None i v now))) =
              [r\<lparr>expires_at := now + t\<rparr>]"
    if "r \<in> set (db_rows st)" and "rid r = i" and "now \<le> expires_at r" for r
    using filter_rid_distinct [OF assms(3) that(1)] that(2,3)
    by (simp add: t filter_rid_touchStmt)
  show ?thesis using t a b by simp
qed

theorem touch_sets_expiry_witness:
  "db_open example_store
   \<and> getTTL example_store JUndefined = JNum 86400000
   \<and> distinct (map rid (db_rows example_store))
   \<and> fst (touch example_store None ''b'' JUndefined 250) = CbResult ()
   \<and> filter (\<lambda>x. rid x = ''b'') (db_rows (snd (touch example_store None ''b'' JUndefined 250))) =
       [\<lparr>rid = ''b'', expires_at = 86400250, data = SqlText ''7''\<rparr>]
   \<and> snd (touch example_store None ''a'' JUndefined 250) = example_store
   \<and> snd (touch example_store None ''c'' JUndefined 250) = example_store"
proof -
  have o: "db_open example_store"
    by (simp add: example_store_def)
  have t: "getTTL example_store JUndefined = JNum 86400000"
    by (simp add: getTTL_def example_store_def ONE_DAY_def)
  have d: "distinct (map rid (db_rows example_store))"
    by (simp add: example_store_def)
  have rows: "db_rows example_store =
      [\<lparr>rid = ''a'', expires_at = 100, data = SqlText ''42''\<rparr>,
       \<lparr>rid = ''b'', expires_at = 300, data = SqlText ''7''\<rparr>]"
    by (simp add: example_store_def)
  have b: "fst (touch example_store None ''b'' JUndefined 250) = CbResult ()
     \<and> filter (\<lambda>x. rid x = ''b'') (db_rows (snd (touch example_store None ''b'' JUndefined 250))) =
       [\<lparr>rid = ''b'', expires_at = 86400250, data = SqlText ''7''\<rparr>]"
    using touch_sets_expiry [OF o t d, of "''b''" 250] by (simp add: rows)
  have a: "snd (touch example_store None ''a'' JUndefined 250) = example_store"
    using touch_sets_expiry [OF o t d, of "''a''" 250] by (simp add: rows)
  have c: "snd (touch example_store None ''c'' JUndefined 250) = example_store"
    using touch_sets_expiry [OF o t d, of "''c''" 250] by (simp add: rows)
  show ?thesis using o t d a b c by simp
qed

text \<open>
  C2 as stated fails: row \<open>b\<close> is active at 250 with \<open>expires_at = 300\<close>, and \<open>touch\<close>
  with \<^verbatim>\<open>{cookie: {maxAge: 10}}\<close> lowers it to 260.
\<close>

theorem touch_shorter_ttl_counterexample:
  "getStmt ''b'' 250 (db_rows example_store) = Some (SqlText ''7'')
   \<and> filter (\<lambda>r. rid r = ''b'') (db_rows example_store) =
       [\<lparr>rid = ''b'', expires_at = 300, data = SqlText ''7''\<rparr>]
   \<and> touch example_store None ''b'' (JObj [(''cookie'', JObj [(''maxAge'', JNum 10)])]) 250 =
       (CbResult (),
        example_store\<lparr>db_rows :=
          [\<lparr>rid = ''a'', expires_at = 100, data = SqlText ''42''\<rparr>,
           \<lparr>rid = ''b'', expires_at = 260, data = SqlText ''7''\<rparr>]\<rparr>)"
  by (simp add: touch_def getTTL_def engine_error_def touchStmt_def getStmt_def example_store_def)

section \<open>Counting\<close>

lemma length_filter_rid_distinct:
  "distinct (map rid rs) \<Longrightarrow>
   length (filter (\<lambda>r. rid r = i \<and> P r) rs) = (if \<exists>r\<in>set rs. rid r = i \<and> P r then 1 else 0)"
proof (induction rs)
  case Nil
  then show ?case by simp
next
  case (Cons x xs)
  then have "rid x \<notin> rid ` set xs" by simp
  then have "\<forall>y\<in>set xs. rid y \<noteq> rid x" by (metis imageI)
  with Cons show ?case by auto
qed

lemma lengthStmt_split:
  "lengthStmt now rs =
   lengthStmt now (filter (\<lambda>r. rid r \<noteq> i) rs)
   + length (filter (\<lambda>r. rid r = i \<and> now \<le> expires_at r) rs)"
  unfolding lengthStmt_def by (induction rs) auto

lemma length_split_rid:
  "length rs = length (filter (\<lambda>r. rid r \<noteq> i) rs) + length (filter (\<lambda>r. rid r = i \<and> True) rs)"
  by (induction rs) auto

text \<open>
  C9, as amended. Over a table of distinct ids, let \<open>set\<close> at \<open>now\<close> succeed for a value
  whose TTL is the number \<open>t\<close>, and count at a clock reading \<open>now'\<close> up to \<open>now + t\<close>.
  Then \<open>length\<close> after the \<open>set\<close> is \<open>length\<close> before it when an active row of the id
  existed, and one more when none did (no row of the id, or only an expired one). The
  number of rows in the table is unchanged when a row of the id existed, and one more
  when none did.
\<close>

theorem set_changes_length:
  assumes "distinct (map rid (db_rows st))"
    and "set_op st None i v now = (CbResult (), st')"
    and "getTTL st v = JNum t" and "now' \<le> now + t"
  shows "length_op st' None now' =
           CbResult (lengthStmt now' (db_rows st)
             + (if \<exists>r\<in>set (db_rows st). rid r = i \<and> now' \<le> expires_at r then 0 else 1))
       \<and> length_op st None now' = CbResult (lengthStmt now' (db_rows st))
       \<and> length (db_rows st') =
           length (db_rows st) + (if \<exists>r\<in>set (db_rows st). rid r = i then 0 else 1)"
proof -
  have o: "db_open st"
    using assms(2,3)
    by (auto simp: set_op_def engine_error_def split: sum.splits if_splits)
  obtain d where d: "stringify (serializer st) v = Inr d"
    and st': "st' = st\<lparr>db_rows := setStmt i (now + t) d (db_rows st)\<rparr>"
    using o assms(2,3) by (auto simp: set_op_def engine_error_def split: sum.splits)
  have n: "lengthStmt now' (setStmt i (now + t) d (db_rows st)) =
           lengthStmt now' (filter (\<lambda>r. rid r \<noteq> i) (db_rows st)) + 1"
    using assms(4) by (simp add: lengthStmt_def setStmt_def)
  have a: "length_op st' None now' =
           CbResult (lengthStmt now' (db_rows st)
             + (if \<exists>r\<in>set (db_rows st). rid r = i \<and> now' \<le> expires_at r then 0 else 1))"
    using o lengthStmt_split [of now' "db_rows st" i]
      length_filter_rid_distinct [OF assms(1), of i "\<lambda>r. now' \<le> expires_at r"]
    by (simp add: st' length_op_def engine_error_def n)
  have b: "length_op st None now' = CbResult (lengthStmt now' (db_rows st))"
    using o by (simp add: length_op_def engine_error_def)
  have c: "length (db_rows st') =
           length (db_rows st) + (if \<exists>r\<in>set (db_rows st). rid r = i then 0 else 1)"
    using length_split_rid [of "db_rows st" i]
      length_filter_rid_distinct [OF assms(1), of i "\<lambda>r. True"]
    by (simp add: st' setStmt_def)
  show ?thesis using a b c by simp
qed

theorem set_changes_length_witness:
  "db_open example_store
   \<and> distinct (map rid (db_rows example_store))
   \<and> set_op example_store None ''b'' (JNum 42) 200 =
       (CbResult (),
        example_store\<lparr>db_rows :=
          [\<lparr>rid = ''a'', expires_at = 100, data = SqlText ''42''\<rparr>,
           \<lparr>rid = ''b'', expires_at = 86400200, data = SqlText ''42''\<rparr>]\<rparr>)
   \<and> getTTL example_store (JNum 42) = JNum 86400000
   \<and> (200::int) \<le> 200 + 86400000
   \<and> length_op example_store None 200 = CbResult 1
   \<and> length_op
        (example_store\<lparr>db_rows :=
          [\<lparr>rid = ''a'', expires_at = 100, data = SqlText ''42''\<rparr>,
           \<lparr>rid = ''b'', expires_at = 86400200, data = SqlText ''42''\<rparr>]\<rparr>) None 200 = CbResult 1"
proof -
  let ?st' = "example_store\<lparr>db_rows :=
          [\<lparr>rid = ''a'', expires_at = 100, data = SqlText ''42''\<rparr>,
           \<lparr>rid = ''b'', expires_at = 86400200, data = SqlText ''42''\<rparr>]\<rparr>"
  have o: "db_open example_store"
    by (simp add: example_store_def)
  have d: "distinct (map rid (db_rows example_store))"
    by (simp add: example_store_def)
  have t: "getTTL example_store (JNum 42) = JNum 86400000"
    by (simp add: getTTL_def example_store_def ONE_DAY_def)
  have e: "stringify (serializer example_store) (JNum 42) = Inr (SqlText ''42'')"
    by (simp add: example_store_def example_JSON_def codebook_serializer_def)
  have rows: "db_rows example_store =
      [\<lparr>rid = ''a'', expires_at = 100, data = SqlText ''42''\<rparr>,
       \<lparr>rid = ''b'', expires_at = 300, data = SqlText ''7''\<rparr>]"
    by (simp add: example_store_def)
  have s: "set_op example_store None ''b'' (JNum 42) 200 = (CbResult (), ?st')"
    by (simp add: set_op_def t e o engine_error_def setStmt_def rows)
  have l: "(200::int) \<le> 200 + 86400000"
    by simp
  have n: "lengthStmt 200
      [\<lparr>rid = ''a'', expires_at = 100, data = SqlText ''42''\<rparr>,
       \<lparr>rid = ''b'', expires_at = 300, data = SqlText ''7''\<rparr>] = 1"
    by (simp add: lengthStmt_def)
  from set_changes_length [OF d s t l]
  show ?thesis using o d s t by (simp add: rows n)
qed

text \<open>
  C9 as stated fails: a row of id \<open>a\<close> exists, expired at 200 and not yet collected;
  \<open>length\<close> at 200 is 1, and after a successful \<open>set\<close> of id \<open>a\<close> it is 2.
\<close>

theorem set_changes_length_counterexample:
  "filter (\<lambda>r. rid r = ''a'') (db_rows example_store) =
       [\<lparr>rid = ''a'', expires_at = 100, data = SqlText ''42''\<rparr>]
   \<and> length_op example_store None 200 = CbResult 1
   \<and> fst (set_op example_store None ''a'' (JNum 42) 200) = CbResult ()
   \<and> length_op (snd (set_op example_store None ''a'' (JNum 42) 200)) None 200 = CbResult 2"
  by (simp add: set_op_def length_op_def getTTL_def engine_error_def setStmt_def lengthStmt_def
        example_store_def example_JSON_def codebook_serializer_def ONE_DAY_def)

end
